theory Spec2Isabelle
  imports Complex_Main
begin

section \<open>structeasy: geometry records\<close>

text \<open>
  The development follows \<^verbatim>\<open>structeasy_class.py\<close> and \<^verbatim>\<open>structeasy_lib.py\<close>.
  Python numbers that carry coordinates are modelled as exact reals: the rounding and the
  range of the machine's binary floating point are outside this model. Python integers
  are \<^typ>\<open>int\<close>. An exception raised by the source is a value of type \<open>error\<close>;
  \<open>ImportError\<close> and \<open>LibraryError\<close> stand for what an import or a call into an external
  library raises.
\<close>

datatype error =
  IndexError | TypeError | ValueError | ZeroDivisionError | NameError string
  | ImportError | LibraryError string

text \<open>Values the source stores without interpreting them (classifiers, container items).\<close>

datatype pyvalue = PyNone | PyInt int | PyFloat real | PyStr string

text \<open>
  \<^verbatim>\<open>class Node\<close>. The attributes \<^verbatim>\<open>x\<close>, \<^verbatim>\<open>y\<close>, \<^verbatim>\<open>z\<close>, \<^verbatim>\<open>tag\<close>, \<^verbatim>\<open>container\<close> and
  \<^verbatim>\<open>data_analysis\<close> carry the prefix \<open>node_\<close> here. The third coordinate is
  \<^verbatim>\<open>None\<close> for a 2D model, and so are the entries of \<^verbatim>\<open>coord\<close> options.
\<close>

record Node =
  nnumber :: int
  node_x :: real
  node_y :: real
  node_z :: "real option"
  node_tag :: int
  coord :: "real option list"
  eltype :: pyvalue
  node_container :: "pyvalue list"
  node_data_analysis :: "pyvalue list"

definition Node_init :: "int \<Rightarrow> real \<Rightarrow> real \<Rightarrow> real option \<Rightarrow> int \<Rightarrow> pyvalue \<Rightarrow> Node" where
  "Node_init nn vx vy vz tg et =
     \<lparr> nnumber = nn, node_x = vx, node_y = vy, node_z = vz, node_tag = tg,
       coord = [Some vx, Some vy, vz], eltype = et,
       node_container = [], node_data_analysis = [] \<rparr>"

text \<open>
  \<^verbatim>\<open>class Element\<close>. Its constructor does not run the constructor of \<^verbatim>\<open>Node\<close>, so an
  element has exactly the attributes below.
\<close>

record Element =
  enumber :: int
  nodes :: "Node list"
  nodei :: int
  nodej :: int
  elem_tag :: int
  etype :: pyvalue
  elem_container :: "pyvalue list"
  elem_data_analysis :: "pyvalue list"

text \<open>
  \<^verbatim>\<open>Element.__init__\<close>: \<^verbatim>\<open>nodes[0]\<close> and \<^verbatim>\<open>nodes[1]\<close> raise IndexError on a sequence
  that is too short.
\<close>

definition Element_init :: "int \<Rightarrow> Node list \<Rightarrow> int \<Rightarrow> pyvalue \<Rightarrow> error + Element" where
  "Element_init en ns tg et =
     (case ns of
        [] \<Rightarrow> Inl IndexError
      | [n0] \<Rightarrow> Inl IndexError
      | n0 # n1 # rest \<Rightarrow>
          Inr \<lparr> enumber = en, nodes = ns, nodei = nnumber n0, nodej = nnumber n1,
                elem_tag = tg, etype = et,
                elem_container = [], elem_data_analysis = [] \<rparr>)"

text \<open>Python's \<^verbatim>\<open>a - b\<close> on coordinate values: \<^verbatim>\<open>None\<close> as an operand raises TypeError.\<close>

fun py_sub :: "real option \<Rightarrow> real option \<Rightarrow> error + real" where
  "py_sub (Some a) (Some b) = Inr (a - b)"
| "py_sub _ _ = Inl TypeError"

text \<open>
  \<^verbatim>\<open>Element.length\<close>. Unpacking \<^verbatim>\<open>x1, y1, z1 = coord\<close> raises ValueError unless the list
  has three entries. The base of \<^verbatim>\<open>** 0.5\<close> is a sum of squares, where the power is the
  square root.
\<close>

definition Element_length :: "Element \<Rightarrow> error + real option" where
  "Element_length e =
     (if length (nodes e) = 2 then
        (case coord (nodes e ! 0) of
           [x1, y1, z1] \<Rightarrow>
             (case coord (nodes e ! 1) of
                [x2, y2, z2] \<Rightarrow>
                  (case py_sub x2 x1 of Inl er \<Rightarrow> Inl er | Inr dx \<Rightarrow>
                   case py_sub y2 y1 of Inl er \<Rightarrow> Inl er | Inr dy \<Rightarrow>
                   case py_sub z2 z1 of Inl er \<Rightarrow> Inl er | Inr dz \<Rightarrow>
                     Inr (Some (sqrt (dx ^ 2 + dy ^ 2 + dz ^ 2))))
              | _ \<Rightarrow> Inl ValueError)
         | _ \<Rightarrow> Inl ValueError)
      else Inr None)"

text \<open>
  The specification's words: the Euclidean distance of two points given by their
  coordinate lists.
\<close>

definition euclidean_distance :: "real list \<Rightarrow> real list \<Rightarrow> real" where
  "euclidean_distance p q = sqrt (\<Sum>(a, b) \<leftarrow> zip p q. (a - b) ^ 2)"

subsection \<open>The local out-of-plane vector\<close>

text \<open>
  \<^verbatim>\<open>numpy.subtract\<close> on two one-dimensional sequences. Shapes are checked first: equal
  lengths pair up, a sequence of length one is broadcast against the other, any other
  pair of lengths raises ValueError. The entries are then subtracted from left to right,
  and \<^verbatim>\<open>None\<close> among them raises TypeError.
\<close>

fun sub_all :: "(real option \<times> real option) list \<Rightarrow> error + real list" where
  "sub_all [] = Inr []"
| "sub_all ((a, b) # ps) =
     (case py_sub a b of
        Inl er \<Rightarrow> Inl er
      | Inr d \<Rightarrow> (case sub_all ps of Inl er \<Rightarrow> Inl er | Inr ds \<Rightarrow> Inr (d # ds)))"

definition np_subtract :: "real option list \<Rightarrow> real option list \<Rightarrow> error + real list" where
  "np_subtract u v =
     (if length u = length v then sub_all (zip u v)
      else if length u = 1 then sub_all (map (\<lambda>b. (u ! 0, b)) v)
      else if length v = 1 then sub_all (map (\<lambda>a. (a, v ! 0)) u)
      else Inl ValueError)"

text \<open>
  What \<^verbatim>\<open>.tolist()\<close> returns on the result of \<^verbatim>\<open>numpy.cross\<close>: a list, or a number when
  both operands have two components.
\<close>

datatype ndvalue = Scalar real | Vector "real list"

text \<open>
  \<^verbatim>\<open>numpy.cross\<close> on two one-dimensional vectors: each must have two or three components
  (ValueError otherwise), and a vector of two components is read with third component 0.
\<close>

definition np_cross :: "real list \<Rightarrow> real list \<Rightarrow> error + ndvalue" where
  "np_cross a b =
     (if (length a \<noteq> 2 \<and> length a \<noteq> 3) \<or> (length b \<noteq> 2 \<and> length b \<noteq> 3)
      then Inl ValueError
      else if length a = 2 then
        (if length b = 2 then Inr (Scalar (a ! 0 * b ! 1 - a ! 1 * b ! 0))
         else Inr (Vector [a ! 1 * b ! 2, - (a ! 0 * b ! 2), a ! 0 * b ! 1 - a ! 1 * b ! 0]))
      else
        (if length b = 3 then
           Inr (Vector [a ! 1 * b ! 2 - a ! 2 * b ! 1,
                        a ! 2 * b ! 0 - a ! 0 * b ! 2,
                        a ! 0 * b ! 1 - a ! 1 * b ! 0])
         else Inr (Vector [- (a ! 2 * b ! 1), a ! 2 * b ! 0, a ! 0 * b ! 1 - a ! 1 * b ! 0])))"

text \<open>
  \<^verbatim>\<open>Element.vecxz\<close>. The argument \<^verbatim>\<open>self.nodes[1].coord\<close> is evaluated before
  \<^verbatim>\<open>self.nodes[0].coord\<close>; either raises IndexError on a node sequence that is too short.
\<close>

definition vecxy_default :: "real list" where
  "vecxy_default = [0, 0, 1]"

definition Element_vecxz :: "Element \<Rightarrow> real list \<Rightarrow> error + ndvalue" where
  "Element_vecxz e vecxy =
     (if length (nodes e) < 2 then Inl IndexError
      else
        (case np_subtract (coord (nodes e ! 1)) (coord (nodes e ! 0)) of
           Inl er \<Rightarrow> Inl er
         | Inr xaxis \<Rightarrow> np_cross xaxis vecxy))"

text \<open>
  The specification's words: the axial direction of an element whose first two nodes
  are at \<open>p\<close> and \<open>q\<close>, and the cross product of two vectors of space.
\<close>

definition axial_direction :: "real \<times> real \<times> real \<Rightarrow> real \<times> real \<times> real \<Rightarrow> real \<times> real \<times> real" where
  "axial_direction p q =
     (case (p, q) of ((x1, y1, z1), (x2, y2, z2)) \<Rightarrow> (x2 - x1, y2 - y1, z2 - z1))"

definition cross_product :: "real \<times> real \<times> real \<Rightarrow> real \<times> real \<times> real \<Rightarrow> real \<times> real \<times> real" where
  "cross_product u v =
     (case (u, v) of ((u1, u2, u3), (v1, v2, v3)) \<Rightarrow>
        (u2 * v3 - u3 * v2, u3 * v1 - u1 * v3, u1 * v2 - u2 * v1))"

definition dot_product :: "real \<times> real \<times> real \<Rightarrow> real \<times> real \<times> real \<Rightarrow> real" where
  "dot_product u v =
     (case (u, v) of ((u1, u2, u3), (v1, v2, v3)) \<Rightarrow> u1 * v1 + u2 * v2 + u3 * v3)"

definition scale3 :: "real \<Rightarrow> real \<times> real \<times> real \<Rightarrow> real \<times> real \<times> real" where
  "scale3 k v = (case v of (v1, v2, v3) \<Rightarrow> (k * v1, k * v2, k * v3))"

definition components :: "real \<times> real \<times> real \<Rightarrow> real list" where
  "components v = (case v of (v1, v2, v3) \<Rightarrow> [v1, v2, v3])"

definition point :: "real \<times> real \<times> real \<Rightarrow> real option list" where
  "point v = map Some (components v)"

text \<open>The example of the specification: nodes 1 and 2 at (0,0,0) and (3,4,0), element 1.\<close>

definition example_node1 :: Node where
  "example_node1 = Node_init 1 0 0 (Some 0) (-1) (PyInt 0)"

definition example_node2 :: Node where
  "example_node2 = Node_init 2 3 4 (Some 0) (-1) (PyInt 0)"

definition example_element :: Element where
  "example_element =
     \<lparr> enumber = 1, nodes = [example_node1, example_node2], nodei = 1, nodej = 2,
       elem_tag = -1, etype = PyInt 1, elem_container = [], elem_data_analysis = [] \<rparr>"

definition example_triangle :: Element where
  "example_triangle =
     \<lparr> enumber = 2, nodes = [example_node1, example_node2, example_node1], nodei = 1,
       nodej = 2, elem_tag = -1, etype = PyInt 1, elem_container = [],
       elem_data_analysis = [] \<rparr>"

text \<open>An element of a model in the plane: the third coordinate of its nodes is \<^verbatim>\<open>None\<close>.\<close>

definition example_flat_element :: Element where
  "example_flat_element =
     \<lparr> enumber = 1,
       nodes = [Node_init 1 0 0 None (-1) (PyInt 0), Node_init 2 3 4 None (-1) (PyInt 0)],
       nodei = 1, nodej = 2, elem_tag = -1, etype = PyInt 1, elem_container = [],
       elem_data_analysis = [] \<rparr>"

section \<open>structeasy: model input and solver glue\<close>

subsection \<open>Tag resolution\<close>

text \<open>
  \<^verbatim>\<open>assign_tag\<close>, the local function of \<^verbatim>\<open>import_geofile\<close>. The mesh library's query
  \<^verbatim>\<open>model.getEntitiesForPhysicalGroup(dim, tag).tolist()\<close> is the parameter \<open>entities\<close>;
  \<open>model_tags\<close> is the list of (dimension, tag) pairs of \<^verbatim>\<open>model.getPhysicalGroups()\<close>.
  The loop keeps the tag of every match it meets, so a later match overwrites an earlier.
  The arguments \<^verbatim>\<open>nnumber\<close> and \<^verbatim>\<open>eltype\<close> are \<open>number\<close> and \<open>edim\<close> here.
\<close>

fun assign_tag_loop ::
  "(int \<Rightarrow> int \<Rightarrow> int list) \<Rightarrow> int \<Rightarrow> int \<Rightarrow> (int \<times> int) list \<Rightarrow> int \<Rightarrow> int" where
  "assign_tag_loop entities number edim [] tag = tag"
| "assign_tag_loop entities number edim (grp # rest) tag =
     assign_tag_loop entities number edim rest
       (if fst grp = edim \<and> number \<in> set (entities edim (snd grp))
        then snd grp else tag)"

definition assign_tag ::
  "(int \<Rightarrow> int \<Rightarrow> int list) \<Rightarrow> int \<Rightarrow> int \<Rightarrow> (int \<times> int) list \<Rightarrow> int" where
  "assign_tag entities number edim model_tags =
     assign_tag_loop entities number edim model_tags (-1)"

text \<open>
  The specification's words: the declared physical groups of the entity's dimension that
  contain the entity, in the order of declaration.
\<close>

definition matching_groups ::
  "(int \<Rightarrow> int \<Rightarrow> int list) \<Rightarrow> int \<Rightarrow> int \<Rightarrow> (int \<times> int) list \<Rightarrow> (int \<times> int) list" where
  "matching_groups entities number edim model_tags =
     filter (\<lambda>g. fst g = edim \<and> number \<in> set (entities edim (snd g))) model_tags"

text \<open>An example mesh: point groups 7 = {1, 2} and 8 = {2}, line group 9 = {1}.\<close>

definition example_entities :: "int \<Rightarrow> int \<Rightarrow> int list" where
  "example_entities d t =
     (if d = 0 \<and> t = 7 then [1, 2] else if d = 0 \<and> t = 8 then [2]
      else if d = 1 \<and> t = 9 then [1] else [])"

definition example_groups :: "(int \<times> int) list" where
  "example_groups = [(0, 7), (0, 8), (1, 9)]"

subsection \<open>Console output and decimal numerals\<close>

text \<open>\<^verbatim>\<open>str\<close> on an integer: its decimal numeral, with a minus sign when negative.\<close>

definition digit_char :: "nat \<Rightarrow> char" where
  "digit_char d = ''0123456789'' ! d"

fun nat_digits :: "nat \<Rightarrow> string" where
  "nat_digits n =
     (if n < 10 then [digit_char n] else nat_digits (n div 10) @ [digit_char (n mod 10)])"

declare nat_digits.simps [simp del]

definition py_str_int :: "int \<Rightarrow> string" where
  "py_str_int i = (if i < 0 then CHR ''-'' # nat_digits (nat (- i)) else nat_digits (nat i))"

subsection \<open>Starting a solver session\<close>

text \<open>
  The solver session as far as \<^verbatim>\<open>start_model\<close> touches it: the space dimension and the
  degrees of freedom per node of the model builder, unset until \<^verbatim>\<open>model\<close> is called and
  unset again by \<^verbatim>\<open>wipe\<close>; and the lines printed on the console.
\<close>

record session =
  ndm :: "int option"
  ndf :: "int option"
  stdout :: "string list"

definition wipe :: "session \<Rightarrow> session" where
  "wipe s = s\<lparr>ndm := None, ndf := None\<rparr>"

text \<open>\<^verbatim>\<open>model('basic', '-ndm', m, '-ndf', f)\<close>.\<close>

definition model_basic :: "int \<Rightarrow> int \<Rightarrow> session \<Rightarrow> session" where
  "model_basic m f s = s\<lparr>ndm := Some m, ndf := Some f\<rparr>"

definition py_print :: "string \<Rightarrow> session \<Rightarrow> session" where
  "py_print line s = s\<lparr>stdout := stdout s @ [line]\<rparr>"

definition not_valid_model_type :: string where
  "not_valid_model_type =
     ''-- Not valid model type, try '' @ [CHR 0x22] @ ''2d'' @ [CHR 0x22] @ '' or '' @
     [CHR 0x22] @ ''3d'' @ [CHR 0x22] @ '' --''"

text \<open>
  \<^verbatim>\<open>start_model\<close> returns \<open>None\<close> and the new session, or the exception it raises and
  the session as it is then (an empty line is printed before the exception).
\<close>

definition start_model :: "string \<Rightarrow> session \<Rightarrow> error option \<times> session" where
  "start_model typology s =
     (if typology = ''3d'' then
        (None, py_print ''3d model initialized'' (model_basic 3 6 (wipe s)))
      else if typology = ''2d'' then
        (None, py_print ''2d model initialized'' (model_basic 2 3 (wipe s)))
      else (Some (NameError not_valid_model_type), py_print [] s))"

subsection \<open>Testing a material\<close>

text \<open>
  The calls \<^verbatim>\<open>material_tester\<close> makes into the solver and the plotting library, over a
  state \<open>'w\<close> of those libraries. Each call returns the state it leaves and, when it
  raises, the exception; nothing is assumed about when a call raises.
\<close>

record 'w tester_libraries =
  import_opensees :: "'w \<Rightarrow> error option \<times> 'w"
  import_pyplot :: "'w \<Rightarrow> error option \<times> 'w"
  testUniaxialMaterial :: "int \<Rightarrow> 'w \<Rightarrow> error option \<times> 'w"
  setStrain :: "real \<Rightarrow> 'w \<Rightarrow> error option \<times> 'w"
  getStress :: "'w \<Rightarrow> (error + real) \<times> 'w"
  subplots :: "nat \<Rightarrow> 'w \<Rightarrow> error option \<times> 'w"
  ax_set_title :: "string \<Rightarrow> 'w \<Rightarrow> error option \<times> 'w"
  ax_plot :: "real list \<Rightarrow> real option list \<Rightarrow> string \<Rightarrow> 'w \<Rightarrow> error option \<times> 'w"
  ax_grid :: "string \<Rightarrow> string \<Rightarrow> 'w \<Rightarrow> error option \<times> 'w"
  ax_set_xlabel :: "string \<Rightarrow> 'w \<Rightarrow> error option \<times> 'w"
  ax_set_ylabel :: "string \<Rightarrow> 'w \<Rightarrow> error option \<times> 'w"

text \<open>Statements in sequence: the first exception ends the run.\<close>

fun run_steps :: "('w \<Rightarrow> error option \<times> 'w) list \<Rightarrow> 'w \<Rightarrow> error option \<times> 'w" where
  "run_steps [] w = (None, w)"
| "run_steps (f # fs) w =
     (case f w of (Some er, w') \<Rightarrow> (Some er, w') | (None, w') \<Rightarrow> run_steps fs w')"

text \<open>The loop \<^verbatim>\<open>for eps in strain: setStrain(eps); stress.append(getStress())\<close>.\<close>

fun strain_loop ::
  "'w tester_libraries \<Rightarrow> real list \<Rightarrow> real list \<Rightarrow> 'w \<Rightarrow> (error + real list) \<times> 'w" where
  "strain_loop lib [] stress w = (Inr stress, w)"
| "strain_loop lib (eps # rest) stress w =
     (case setStrain lib eps w of
        (Some er, w1) \<Rightarrow> (Inl er, w1)
      | (None, w1) \<Rightarrow>
          (case getStress lib w1 of
             (Inl er, w2) \<Rightarrow> (Inl er, w2)
           | (Inr sg, w2) \<Rightarrow> strain_loop lib rest (stress @ [sg]) w2))"

text \<open>
  \<^verbatim>\<open>np.array(stress) / scaleStress\<close>, entry by entry; a division by zero raises nothing
  and gives no finite number, which is \<open>None\<close> here.
\<close>

definition np_divide :: "real \<Rightarrow> real \<Rightarrow> real option" where
  "np_divide c sg = (if c = 0 then None else Some (sg / c))"

text \<open>The body of the \<^verbatim>\<open>try\<close> block.\<close>

definition material_tester_body ::
  "'w tester_libraries \<Rightarrow> int \<Rightarrow> real list \<Rightarrow> string \<Rightarrow> real \<Rightarrow> 'w \<Rightarrow> error option \<times> 'w" where
  "material_tester_body lib matTag strain title scaleStress w =
     (case run_steps [import_opensees lib, import_pyplot lib,
                      testUniaxialMaterial lib matTag] w of
        (Some er, w1) \<Rightarrow> (Some er, w1)
      | (None, w1) \<Rightarrow>
          (case strain_loop lib strain [] w1 of
             (Inl er, w2) \<Rightarrow> (Some er, w2)
           | (Inr stress, w2) \<Rightarrow>
               run_steps
                 [subplots lib 120,
                  ax_set_title lib (title @ '' | Material Tag: '' @ py_str_int matTag),
                  ax_plot lib strain (map (np_divide scaleStress) stress) ''#45818e'',
                  ax_grid lib ''--'' ''#e2e2e2'',
                  ax_set_xlabel lib ''Strain'',
                  ax_set_ylabel lib ''Stress''] w2))"

definition check_material_message :: string where
  "check_material_message =
     ''Please check material and openseespy definition or matplotlib library''"

text \<open>
  \<^verbatim>\<open>material_tester\<close> on the state of the libraries and the lines of the console. The
  bare \<^verbatim>\<open>except:\<close> takes every exception of the body and prints the message. The result
  is the exception that leaves the function, if any, and the new state. (The import of
  numpy before the \<^verbatim>\<open>try\<close> repeats the import at the head of the module.)
\<close>

definition material_tester ::
  "'w tester_libraries \<Rightarrow> int \<Rightarrow> real list \<Rightarrow> string \<Rightarrow> real \<Rightarrow> 'w \<times> string list
     \<Rightarrow> error option \<times> ('w \<times> string list)" where
  "material_tester lib matTag strain title scaleStress st =
     (case material_tester_body lib matTag strain title scaleStress (fst st) of
        (None, w') \<Rightarrow> (None, (w', snd st))
      | (Some er, w') \<Rightarrow> (None, (w', snd st @ [check_material_message])))"

text \<open>
  An example library: its state counts the strains set, material 1 is the only one defined
  and answers with twice the number of strains set so far.
\<close>

definition example_libraries :: "nat tester_libraries" where
  "example_libraries =
     \<lparr> import_opensees = (\<lambda>w. (None, w)),
       import_pyplot = (\<lambda>w. (None, w)),
       testUniaxialMaterial =
         (\<lambda>t w. if t = 1 then (None, 0) else (Some (LibraryError ''material not found''), w)),
       setStrain = (\<lambda>eps w. (None, Suc w)),
       getStress = (\<lambda>w. (Inr (2 * real w), w)),
       subplots = (\<lambda>dpi w. (None, w)),
       ax_set_title = (\<lambda>t w. (None, w)),
       ax_plot = (\<lambda>xs ys c w. (None, w)),
       ax_grid = (\<lambda>l c w. (None, w)),
       ax_set_xlabel = (\<lambda>l w. (None, w)),
       ax_set_ylabel = (\<lambda>l w. (None, w)) \<rparr>"

section \<open>structeasy: plotting the model\<close>

text \<open>
  What \<^verbatim>\<open>go.Scatter3d\<close> is given: the keyword arguments \<^verbatim>\<open>plot_model\<close> passes, \<open>None\<close>
  for one it leaves out. A colour argument is one colour or a list of colours; a label
  in the list \<^verbatim>\<open>text\<close> is a string or \<^verbatim>\<open>None\<close>.
\<close>

datatype colors = Color string | Colors "string list"

record trace =
  trace_x :: "real list"
  trace_y :: "real list"
  trace_z :: "real option list"
  trace_mode :: string
  marker_size :: "nat option"
  marker_color :: "colors option"
  line_color :: "colors option"
  line_width :: "nat option"
  trace_text :: "string option list option"
  textposition :: "string option"
  textfont_color :: "colors option"
  showlegend :: bool

text \<open>The layout \<^verbatim>\<open>fig.update_layout\<close> sets; it is the same for every call.\<close>

record layout =
  xaxis_title :: string
  yaxis_title :: string
  zaxis_title :: string
  axis_backgroundcolor :: string
  tickfont_color :: string
  tickfont_size :: nat
  tickfont_family :: string
  layout_width :: nat
  layout_height :: nat
  layout_margin :: nat

definition plot_layout :: layout where
  "plot_layout =
     \<lparr> xaxis_title = ''X axis'', yaxis_title = ''Y axis'', zaxis_title = ''Z axis'',
       axis_backgroundcolor = ''#f0f0f0'', tickfont_color = ''darkgrey'', tickfont_size = 12,
       tickfont_family = ''Arial'', layout_width = 800, layout_height = 600,
       layout_margin = 0 \<rparr>"

record figure =
  fig_data :: "trace list"
  fig_layout :: layout

text \<open>
  The state \<^verbatim>\<open>plot_model\<close> works on: the two collections of the caller (dictionaries in
  the order of insertion, as lists of key and record), the figures shown so far, and the
  files written, by name.
\<close>

record world =
  nodes_db :: "(int \<times> Node) list"
  elements_db :: "(int \<times> Element) list"
  displayed :: "figure list"
  files :: "string \<rightharpoonup> figure"

text \<open>
  \<^verbatim>\<open>list(set(...))\<close> of the tags of nodes and elements other than -1. The order in which
  Python lists a set is the parameter \<open>set_order\<close>.
\<close>

definition tagged :: "(int \<times> Node) list \<Rightarrow> (int \<times> Element) list \<Rightarrow> int list" where
  "tagged ndb edb =
     filter (\<lambda>t. t \<noteq> -1) (map (node_tag \<circ> snd) ndb) @
     filter (\<lambda>t. t \<noteq> -1) (map (elem_tag \<circ> snd) edb)"

definition plot_tags ::
  "(int list \<Rightarrow> int list) \<Rightarrow> (int \<times> Node) list \<Rightarrow> (int \<times> Element) list \<Rightarrow> int list" where
  "plot_tags set_order ndb edb = set_order (tagged ndb edb)"

text \<open>\<^verbatim>\<open>np.linspace(0, 1, n)\<close>: \<open>n\<close> evenly spaced numbers from 0 to 1.\<close>

definition np_linspace01 :: "nat \<Rightarrow> real list" where
  "np_linspace01 n =
     (if n = 0 then [] else if n = 1 then [0]
      else map (\<lambda>i. real i / real (n - 1)) [0..<n])"

text \<open>\<^verbatim>\<open>int\<close> on a number: the fraction is cut off, towards zero.\<close>

definition py_int :: "real \<Rightarrow> int" where
  "py_int v = (if 0 \<le> v then \<lfloor>v\<rfloor> else \<lceil>v\<rceil>)"

definition rgb_string :: "real \<times> real \<times> real \<Rightarrow> string" where
  "rgb_string c =
     (case c of (r, g, b) \<Rightarrow>
        ''rgb('' @ py_str_int (py_int (r * 255)) @ '','' @ py_str_int (py_int (g * 255)) @
        '','' @ py_str_int (py_int (b * 255)) @ '')'')"

text \<open>
  The dictionary \<^verbatim>\<open>tag_color_map\<close> when colouring by tag, as the list of its entries.
  The colour map \<^verbatim>\<open>cm.rainbow\<close> of the plotting library is the parameter \<open>rainbow\<close>, from a
  number to the red, green and blue parts of a colour.
\<close>

definition tag_color_map ::
  "(int list \<Rightarrow> int list) \<Rightarrow> (real \<Rightarrow> real \<times> real \<times> real) \<Rightarrow>
   (int \<times> Node) list \<Rightarrow> (int \<times> Element) list \<Rightarrow> (int \<times> string) list" where
  "tag_color_map set_order rainbow ndb edb =
     (let tags = plot_tags set_order ndb edb;
          colors = map rainbow (np_linspace01 (length tags))
      in zip tags (map rgb_string colors))"

text \<open>\<^verbatim>\<open>d.get(k, default)\<close> on a dictionary given by its entries, a later entry winning.\<close>

definition dict_get :: "('k \<times> 'v) list \<Rightarrow> 'k \<Rightarrow> 'v \<Rightarrow> 'v" where
  "dict_get d k dflt = (case map_of (rev d) k of None \<Rightarrow> dflt | Some v \<Rightarrow> v)"

definition node_color ::
  "bool \<Rightarrow> (int \<times> string) list \<Rightarrow> (int \<times> Node) list \<Rightarrow> string list" where
  "node_color color_by_tag tcm ndb =
     (if color_by_tag then map (\<lambda>n. dict_get tcm (node_tag n) ''red'') (map snd ndb)
      else replicate (length ndb) ''red'')"

definition node_text ::
  "bool \<Rightarrow> bool \<Rightarrow> (int \<times> Node) list \<Rightarrow> string option list option" where
  "node_text show_numbers show_tags ndb =
     (if show_numbers then
        Some (map (\<lambda>(k, n). if show_tags
                               then Some (py_str_int k @ ''<br>Tag: '' @ py_str_int (node_tag n))
                               else Some (py_str_int k)) ndb)
      else None)"

definition node_trace ::
  "bool \<Rightarrow> bool \<Rightarrow> bool \<Rightarrow> bool \<Rightarrow> (int \<times> string) list \<Rightarrow> (int \<times> Node) list \<Rightarrow> trace" where
  "node_trace show_numbers show_tags color_by_tag show_legend tcm ndb =
     \<lparr> trace_x = map (node_x \<circ> snd) ndb,
       trace_y = map (node_y \<circ> snd) ndb,
       trace_z = map (node_z \<circ> snd) ndb,
       trace_mode = (if show_numbers \<or> show_tags then ''markers+text'' else ''markers''),
       marker_size = Some 8,
       marker_color = Some (Colors (node_color color_by_tag tcm ndb)),
       line_color = None,
       line_width = None,
       trace_text = node_text show_numbers show_tags ndb,
       textposition = Some ''middle right'',
       textfont_color = Some (Colors (node_color color_by_tag tcm ndb)),
       showlegend = show_legend \<rparr>"

definition element_color :: "bool \<Rightarrow> (int \<times> string) list \<Rightarrow> Element \<Rightarrow> string" where
  "element_color color_by_tag tcm element =
     (if color_by_tag then dict_get tcm (elem_tag element) ''black'' else ''black'')"

definition element_text :: "bool \<Rightarrow> bool \<Rightarrow> int \<Rightarrow> Element \<Rightarrow> string option" where
  "element_text show_numbers show_tags en element =
     (if show_tags then Some (py_str_int en @ ''<br>Tag: '' @ py_str_int (elem_tag element))
      else if show_numbers then Some (py_str_int en) else None)"

text \<open>
  \<^verbatim>\<open>sum(x) / len(x)\<close>: the sum comes first and raises TypeError on \<^verbatim>\<open>None\<close>, the division
  raises ZeroDivisionError on an empty list.
\<close>

definition py_mean :: "real option list \<Rightarrow> error + real" where
  "py_mean vs =
     (if None \<in> set vs then Inl TypeError
      else if vs = [] then Inl ZeroDivisionError
      else Inr (sum_list (map the vs) / real (length vs)))"

text \<open>One round of the loop over the elements: the traces it appends.\<close>

definition element_round ::
  "bool \<Rightarrow> bool \<Rightarrow> bool \<Rightarrow> bool \<Rightarrow> (int \<times> string) list \<Rightarrow> int \<Rightarrow> Element
     \<Rightarrow> error + trace list" where
  "element_round show_numbers show_tags color_by_tag show_legend tcm en element =
     (let xs = map node_x (nodes element);
          ys = map node_y (nodes element);
          zs = map node_z (nodes element);
          color = element_color color_by_tag tcm element;
          txt = element_text show_numbers show_tags en element
      in case py_mean (map Some xs) of Inl er \<Rightarrow> Inl er | Inr mid_x \<Rightarrow>
         case py_mean (map Some ys) of Inl er \<Rightarrow> Inl er | Inr mid_y \<Rightarrow>
         case py_mean zs of Inl er \<Rightarrow> Inl er | Inr mid_z \<Rightarrow>
           (let element_trace =
                  \<lparr> trace_x = xs, trace_y = ys, trace_z = zs, trace_mode = ''lines'',
                    marker_size = None, marker_color = None,
                    line_color = Some (Color color), line_width = Some 4,
                    trace_text = None, textposition = None, textfont_color = None,
                    showlegend = show_legend \<rparr>;
                mid_trace =
                  \<lparr> trace_x = [mid_x], trace_y = [mid_y], trace_z = [Some mid_z],
                    trace_mode = ''text'',
                    marker_size = None, marker_color = None,
                    line_color = None, line_width = None,
                    trace_text = Some [txt], textposition = Some ''top center'',
                    textfont_color = Some (Color color), showlegend = False \<rparr>
            in Inr (if show_numbers \<or> show_tags then [mid_trace, element_trace]
                    else [element_trace])))"

fun element_traces ::
  "bool \<Rightarrow> bool \<Rightarrow> bool \<Rightarrow> bool \<Rightarrow> (int \<times> string) list \<Rightarrow> (int \<times> Element) list
     \<Rightarrow> trace list \<Rightarrow> error + trace list" where
  "element_traces show_numbers show_tags color_by_tag show_legend tcm [] acc = Inr acc"
| "element_traces show_numbers show_tags color_by_tag show_legend tcm ((en, element) # rest) acc =
     (case element_round show_numbers show_tags color_by_tag show_legend tcm en element of
        Inl er \<Rightarrow> Inl er
      | Inr ts \<Rightarrow>
          element_traces show_numbers show_tags color_by_tag show_legend tcm rest (acc @ ts))"

text \<open>The figure: the trace of the nodes, then the traces of the elements.\<close>

definition build_figure ::
  "(int list \<Rightarrow> int list) \<Rightarrow> (real \<Rightarrow> real \<times> real \<times> real) \<Rightarrow>
   (int \<times> Node) list \<Rightarrow> (int \<times> Element) list \<Rightarrow> bool \<Rightarrow> bool \<Rightarrow> bool \<Rightarrow> bool
     \<Rightarrow> error + figure" where
  "build_figure set_order rainbow ndb edb show_numbers show_tags color_by_tag show_legend =
     (let tcm = (if color_by_tag then tag_color_map set_order rainbow ndb edb else [])
      in case element_traces show_numbers show_tags color_by_tag show_legend tcm edb [] of
           Inl er \<Rightarrow> Inl er
         | Inr ts \<Rightarrow>
             Inr \<lparr> fig_data =
                     node_trace show_numbers show_tags color_by_tag show_legend tcm ndb # ts,
                   fig_layout = plot_layout \<rparr>)"

text \<open>
  \<^verbatim>\<open>plot_model\<close>: the exception it raises, if any, and the state it leaves. The figure is
  shown, and written to the file when \<^verbatim>\<open>save_html\<close> is set.
\<close>

definition plot_model ::
  "(int list \<Rightarrow> int list) \<Rightarrow> (real \<Rightarrow> real \<times> real \<times> real) \<Rightarrow>
   bool \<Rightarrow> bool \<Rightarrow> bool \<Rightarrow> bool \<Rightarrow> string \<Rightarrow> bool \<Rightarrow> world \<Rightarrow> error option \<times> world" where
  "plot_model set_order rainbow show_numbers show_tags color_by_tag save_html filename
     show_legend w =
     (case build_figure set_order rainbow (nodes_db w) (elements_db w)
             show_numbers show_tags color_by_tag show_legend of
        Inl er \<Rightarrow> (Some er, w)
      | Inr fig \<Rightarrow>
          (None,
           w\<lparr> displayed := displayed w @ [fig],
              files := (if save_html then (files w)(filename \<mapsto> fig) else files w) \<rparr>))"

text \<open>
  The specification's words: the distinct set of tags across all nodes and elements,
  the sentinel -1 of the ungrouped left out.
\<close>

definition distinct_tags :: "(int \<times> Node) list \<Rightarrow> (int \<times> Element) list \<Rightarrow> int set" where
  "distinct_tags ndb edb =
     (node_tag ` snd ` set ndb \<union> elem_tag ` snd ` set edb) - {-1}"

text \<open>
  An example model: nodes 1, 2 and 3 with tags 7, 8 and -1, and the element 1 between
  nodes 1 and 2 with tag 7. The example colour map runs from blue to red, and the example
  order of a set is the order of last occurrence.
\<close>

definition example_nodes_db :: "(int \<times> Node) list" where
  "example_nodes_db =
     [(1, Node_init 1 0 0 (Some 0) 7 (PyInt 0)),
      (2, Node_init 2 3 4 (Some 0) 8 (PyInt 0)),
      (3, Node_init 3 3 0 (Some 0) (-1) (PyInt 0))]"

definition example_elements_db :: "(int \<times> Element) list" where
  "example_elements_db =
     [(1, \<lparr> enumber = 1,
             nodes = [Node_init 1 0 0 (Some 0) 7 (PyInt 0), Node_init 2 3 4 (Some 0) 8 (PyInt 0)],
             nodei = 1, nodej = 2, elem_tag = 7, etype = PyStr ''uniaxial'',
             elem_container = [], elem_data_analysis = [] \<rparr>)]"

definition example_world :: world where
  "example_world =
     \<lparr> nodes_db = example_nodes_db, elements_db = example_elements_db,
       displayed = [], files = Map.empty \<rparr>"

text \<open>A model in the plane: the third coordinate of its nodes is \<^verbatim>\<open>None\<close>.\<close>

definition example_flat_world :: world where
  "example_flat_world =
     \<lparr> nodes_db = [(1, Node_init 1 0 0 None 7 (PyInt 0)), (2, Node_init 2 3 4 None 7 (PyInt 0))],
       elements_db =
         [(1, \<lparr> enumber = 1,
                 nodes = [Node_init 1 0 0 None 7 (PyInt 0), Node_init 2 3 4 None 7 (PyInt 0)],
                 nodei = 1, nodej = 2, elem_tag = 7, etype = PyStr ''uniaxial'',
                 elem_container = [], elem_data_analysis = [] \<rparr>)],
       displayed = [], files = Map.empty \<rparr>"

text \<open>A model of \<open>n\<close> nodes, the node \<open>i\<close> with the tag \<open>i\<close>.\<close>

definition many_nodes_db :: "nat \<Rightarrow> (int \<times> Node) list" where
  "many_nodes_db n =
     map (\<lambda>i. (int i, Node_init (int i) 0 0 (Some 0) (int i) (PyInt 0))) [0..<n]"

text \<open>The colour strings of three bytes: what \<open>rgb_string\<close> can return on parts in [0, 1].\<close>

definition rgb_of_bytes :: "int \<times> int \<times> int \<Rightarrow> string" where
  "rgb_of_bytes c =
     (case c of (r, g, b) \<Rightarrow>
        ''rgb('' @ py_str_int r @ '','' @ py_str_int g @ '','' @ py_str_int b @ '')'')"

definition example_rainbow :: "real \<Rightarrow> real \<times> real \<times> real" where
  "example_rainbow v = (v, 0, 1 - v)"

section \<open>Properties of the records\<close>

lemma length_three_cases:
  assumes "length (p :: 'a list) = 3"
  obtains a b c where "p = [a, b, c]"
  using assms by (auto simp: length_Suc_conv numeral_3_eq_3)

text \<open>
  C1. An element with exactly two nodes whose coordinates are known (three numbers each)
  has as length the Euclidean distance of the two points; an element whose node sequence
  has another number of entries has length \<^verbatim>\<open>None\<close>.
\<close>

theorem Element_length_euclidean:
  "(length (nodes e) = 2 \<and> length p = 3 \<and> length q = 3 \<and>
      coord (nodes e ! 0) = map Some p \<and> coord (nodes e ! 1) = map Some q
      \<longrightarrow> Element_length e = Inr (Some (euclidean_distance p q)))
   \<and> (length (nodes e) \<noteq> 2 \<longrightarrow> Element_length e = Inr None)"
proof (intro conjI impI)
  assume h: "length (nodes e) = 2 \<and> length p = 3 \<and> length q = 3 \<and>
      coord (nodes e ! 0) = map Some p \<and> coord (nodes e ! 1) = map Some q"
  from h obtain a b c where p: "p = [a, b, c]" by (auto elim: length_three_cases)
  from h obtain a' b' c' where q: "q = [a', b', c']" by (auto elim: length_three_cases)
  have "(a' - a) ^ 2 = (a - a') ^ 2" "(b' - b) ^ 2 = (b - b') ^ 2" "(c' - c) ^ 2 = (c - c') ^ 2"
    by (simp_all add: power2_commute)
  with h p q show "Element_length e = Inr (Some (euclidean_distance p q))"
    by (simp add: Element_length_def euclidean_distance_def)
next
  assume "length (nodes e) \<noteq> 2"
  then show "Element_length e = Inr None"
    by (simp add: Element_length_def)
qed

lemma sqrt_25: "sqrt 25 = 5"
  using real_sqrt_abs [of 5] by simp

theorem Element_length_euclidean_witness:
  "(length (nodes example_element) = 2 \<and> length [0, 0, 0 :: real] = 3 \<and>
      length [3, 4, 0 :: real] = 3 \<and>
      coord (nodes example_element ! 0) = map Some [0, 0, 0] \<and>
      coord (nodes example_element ! 1) = map Some [3, 4, 0]) \<and>
   Element_length example_element = Inr (Some 5) \<and>
   length (nodes example_triangle) \<noteq> 2 \<and>
   Element_length example_triangle = Inr None"
  using Element_length_euclidean [of example_element "[0, 0, 0]" "[3, 4, 0]"]
    Element_length_euclidean [of example_triangle "[]" "[]"]
  by (simp add: example_element_def example_triangle_def example_node1_def
      example_node2_def Node_init_def euclidean_distance_def sqrt_25)

lemma Element_init_example:
  "Element_init 1 [example_node1, example_node2] (-1) (PyInt 1) = Inr example_element"
  by (simp add: Element_init_def example_element_def example_node1_def example_node2_def
      Node_init_def)

text \<open>
  C9. An element that the constructor returns has as \<^verbatim>\<open>nodei\<close> and \<^verbatim>\<open>nodej\<close> the
  identifiers of the first and the second entry of the node sequence it was built from,
  and holds that sequence.
\<close>

theorem Element_init_nodei_nodej:
  "Element_init en ns tg et = Inr e \<Longrightarrow>
     2 \<le> length ns \<and> nodes e = ns \<and>
     nodei e = nnumber (ns ! 0) \<and> nodej e = nnumber (ns ! 1)"
  by (auto simp: Element_init_def split: list.splits)

theorem Element_init_nodei_nodej_witness:
  "Element_init 1 [example_node1, example_node2] (-1) (PyInt 1) = Inr example_element \<and>
   nodes example_element = [example_node1, example_node2] \<and>
   nodei example_element = 1 \<and> nodej example_element = 2"
  using Element_init_nodei_nodej [OF Element_init_example] Element_init_example
  by (simp add: example_element_def example_node1_def example_node2_def Node_init_def)

text \<open>
  C10. The constructor raises IndexError on a node sequence with fewer than two entries.
  So an element it returns has at least two nodes, and its length is \<^verbatim>\<open>None\<close> exactly
  when it was built from more than two nodes; on an element whose node sequence is
  replaced afterwards by one of another size than two, the length is \<^verbatim>\<open>None\<close> as well.
\<close>

theorem Element_init_short_fails:
  "(length ns < 2 \<longrightarrow> Element_init en ns tg et = Inl IndexError) \<and>
   (Element_init en ns tg et = Inr e \<longrightarrow>
      2 \<le> length (nodes e) \<and>
      (Element_length e = Inr None \<longleftrightarrow> 2 < length ns) \<and>
      (length ms \<noteq> 2 \<longrightarrow> Element_length (e\<lparr>nodes := ms\<rparr>) = Inr None))"
proof (intro conjI impI)
  assume "length ns < 2"
  then show "Element_init en ns tg et = Inl IndexError"
    by (cases ns; cases "tl ns") (simp_all add: Element_init_def)
next
  assume ok: "Element_init en ns tg et = Inr e"
  then have n: "nodes e = ns" and l: "2 \<le> length ns"
    by (auto simp: Element_init_def split: list.splits)
  from n l show "2 \<le> length (nodes e)" by simp
  show "Element_length e = Inr None \<longleftrightarrow> 2 < length ns"
  proof (cases "length ns = 2")
    case True
    with n have "Element_length e \<noteq> Inr None"
      by (auto simp: Element_length_def split: list.splits sum.splits)
    with True show ?thesis by simp
  next
    case False
    with n l show ?thesis by (simp add: Element_length_def)
  qed
next
  assume "length ms \<noteq> 2"
  then show "Element_length (e\<lparr>nodes := ms\<rparr>) = Inr None"
    by (simp add: Element_length_def)
qed

theorem Element_init_short_fails_witness:
  "length [example_node1] < 2 \<and>
   Element_init 3 [example_node1] (-1) (PyInt 1) = Inl IndexError \<and>
   Element_init 1 [example_node1, example_node2] (-1) (PyInt 1) = Inr example_element \<and>
   2 \<le> length (nodes example_element) \<and>
   Element_length example_element \<noteq> Inr None \<and>
   length [example_node1] \<noteq> 2 \<and>
   Element_length (example_element\<lparr>nodes := [example_node1]\<rparr>) = Inr None"
  using Element_init_short_fails [of "[example_node1]" 3 "-1" "PyInt 1" example_element "[]"]
    Element_init_short_fails [of "[example_node1, example_node2]" 1 "-1" "PyInt 1"
      example_element "[example_node1]"]
    Element_init_example
  by simp

subsection \<open>The local out-of-plane vector\<close>

text \<open>
  The cross product defined above is the one of geometry: it is orthogonal to both
  factors, changes sign when they are exchanged, and its squared norm is given by
  Lagrange's identity.
\<close>

lemma cross_product_orthogonal:
  "dot_product (cross_product u v) u = 0" "dot_product (cross_product u v) v = 0"
  by (cases u; cases v; simp add: cross_product_def dot_product_def algebra_simps)+

lemma cross_product_anticommute:
  "cross_product u v = scale3 (-1) (cross_product v u)"
  by (cases u; cases v) (simp add: cross_product_def scale3_def)

lemma cross_product_lagrange:
  "dot_product (cross_product u v) (cross_product u v) =
     dot_product u u * dot_product v v - (dot_product u v) ^ 2"
  by (cases u; cases v)
    (simp add: cross_product_def dot_product_def power2_eq_square algebra_simps)

lemma np_subtract_points:
  "np_subtract (point q) (point p) = Inr (components (axial_direction p q))"
  by (cases p; cases q)
    (simp add: np_subtract_def point_def components_def axial_direction_def)

lemma np_cross_three:
  "np_cross (components u) (components v) = Inr (Vector (components (cross_product u v)))"
  by (cases u; cases v) (simp add: np_cross_def components_def cross_product_def)

lemma np_cross_three_two:
  "np_cross (components u) [r1, r2] =
     Inr (Vector (components (cross_product u (r1, r2, 0))))"
  by (cases u) (simp add: np_cross_def components_def cross_product_def)

text \<open>
  As the claim C4 is written, for every element with at least two nodes, it fails on a
  model in the plane: the subtraction of the coordinates raises TypeError.
\<close>

theorem Element_vecxz_flat_counterexample:
  "2 \<le> length (nodes example_flat_element) \<and>
   Element_vecxz example_flat_element vecxy_default = Inl TypeError"
  by (simp add: Element_vecxz_def example_flat_element_def Node_init_def np_subtract_def)

text \<open>
  C4, amended. For an element with at least two nodes, the first two at known points \<open>p\<close>
  and \<open>q\<close> of space, \<^verbatim>\<open>vecxz\<close> returns the cross product of the axial direction \<open>q - p\<close>
  with the reference vector of three components the caller supplies; a reference vector
  of two components counts with third component 0, and the default reference vector is
  the global vertical axis.
\<close>

theorem Element_vecxz_cross_product:
  "2 \<le> length (nodes e) \<and> coord (nodes e ! 0) = point p \<and> coord (nodes e ! 1) = point q
   \<longrightarrow>
     Element_vecxz e (components r) =
       Inr (Vector (components (cross_product (axial_direction p q) r))) \<and>
     Element_vecxz e [r1, r2] =
       Inr (Vector (components (cross_product (axial_direction p q) (r1, r2, 0)))) \<and>
     Element_vecxz e vecxy_default =
       Inr (Vector (components (cross_product (axial_direction p q) (0, 0, 1))))"
proof (intro impI)
  assume h: "2 \<le> length (nodes e) \<and> coord (nodes e ! 0) = point p \<and>
    coord (nodes e ! 1) = point q"
  have d: "vecxy_default = components (0, 0, 1)"
    by (simp add: vecxy_default_def components_def)
  from h have "\<And>v. Element_vecxz e v = np_cross (components (axial_direction p q)) v"
    by (simp add: Element_vecxz_def np_subtract_points)
  then show "Element_vecxz e (components r) =
       Inr (Vector (components (cross_product (axial_direction p q) r))) \<and>
     Element_vecxz e [r1, r2] =
       Inr (Vector (components (cross_product (axial_direction p q) (r1, r2, 0)))) \<and>
     Element_vecxz e vecxy_default =
       Inr (Vector (components (cross_product (axial_direction p q) (0, 0, 1))))"
    by (simp only: d np_cross_three np_cross_three_two simp_thms)
qed

theorem Element_vecxz_cross_product_witness:
  "(2 \<le> length (nodes example_element) \<and>
    coord (nodes example_element ! 0) = point (0, 0, 0) \<and>
    coord (nodes example_element ! 1) = point (3, 4, 0)) \<and>
   Element_vecxz example_element [0, 0, 1] = Inr (Vector [4, -3, 0]) \<and>
   Element_vecxz example_element [0, 1] = Inr (Vector [0, 0, 3]) \<and>
   Element_vecxz example_element vecxy_default = Inr (Vector [4, -3, 0])"
  using Element_vecxz_cross_product [of example_element "(0, 0, 0)" "(3, 4, 0)" "(0, 0, 1)" 0 1]
  by (simp add: example_element_def example_node1_def example_node2_def Node_init_def
      point_def components_def cross_product_def axial_direction_def)

text \<open>
  C5. For an element with two nodes at known points whose axial direction is parallel to
  the reference vector (one is a multiple of the other), \<^verbatim>\<open>vecxz\<close> returns the zero
  vector.
\<close>

theorem Element_vecxz_parallel_zero:
  "length (nodes e) = 2 \<and> coord (nodes e ! 0) = point p \<and> coord (nodes e ! 1) = point q \<and>
   (axial_direction p q = scale3 k r \<or> r = scale3 k (axial_direction p q))
   \<longrightarrow> Element_vecxz e (components r) = Inr (Vector [0, 0, 0])"
proof (intro impI)
  assume h: "length (nodes e) = 2 \<and> coord (nodes e ! 0) = point p \<and>
    coord (nodes e ! 1) = point q \<and>
    (axial_direction p q = scale3 k r \<or> r = scale3 k (axial_direction p q))"
  then have "Element_vecxz e (components r) =
      np_cross (components (axial_direction p q)) (components r)"
    by (simp add: Element_vecxz_def np_subtract_points)
  also have "\<dots> = Inr (Vector (components (cross_product (axial_direction p q) r)))"
    by (rule np_cross_three)
  also have "cross_product (axial_direction p q) r = (0, 0, 0)"
  proof -
    obtain a1 a2 a3 where a: "axial_direction p q = (a1, a2, a3)"
      by (cases "axial_direction p q") auto
    obtain r1 r2 r3 where r: "r = (r1, r2, r3)" by (cases r) auto
    from h a r have "(a1 = k * r1 \<and> a2 = k * r2 \<and> a3 = k * r3) \<or>
        (r1 = k * a1 \<and> r2 = k * a2 \<and> r3 = k * a3)"
      by (simp add: scale3_def)
    then show ?thesis
      unfolding a r by (auto simp: cross_product_def)
  qed
  finally show "Element_vecxz e (components r) = Inr (Vector [0, 0, 0])"
    by (simp add: components_def)
qed

theorem Element_vecxz_parallel_zero_witness:
  "(length (nodes example_element) = 2 \<and>
    coord (nodes example_element ! 0) = point (0, 0, 0) \<and>
    coord (nodes example_element ! 1) = point (3, 4, 0) \<and>
    (axial_direction (0, 0, 0) (3, 4, 0) = scale3 (1 / 2) (6, 8, 0) \<or>
     (6, 8, 0) = scale3 (1 / 2) (axial_direction (0, 0, 0) (3, 4, 0)))) \<and>
   Element_vecxz example_element [6, 8, 0] = Inr (Vector [0, 0, 0])"
  using Element_vecxz_parallel_zero [of example_element "(0, 0, 0)" "(3, 4, 0)" "1 / 2" "(6, 8, 0)"]
  by (simp add: example_element_def example_node1_def example_node2_def Node_init_def
      point_def components_def axial_direction_def scale3_def)

section \<open>Properties of model input and solver glue\<close>

subsection \<open>Tag resolution\<close>

lemma assign_tag_loop_last:
  "assign_tag_loop entities number edim gs tag =
     (if matching_groups entities number edim gs = [] then tag
      else snd (last (matching_groups entities number edim gs)))"
  by (induction gs arbitrary: tag) (simp_all add: matching_groups_def)

text \<open>
  C3. Tag resolution returns -1 when no declared group of the entity's dimension contains
  the entity, the identifier of the group when exactly one does, and the identifier of the
  last such group in the order of the scan when several do.
\<close>

theorem assign_tag_resolution:
  "(matching_groups entities number edim model_tags = []
      \<longrightarrow> assign_tag entities number edim model_tags = -1) \<and>
   (matching_groups entities number edim model_tags = [g]
      \<longrightarrow> assign_tag entities number edim model_tags = snd g) \<and>
   (matching_groups entities number edim model_tags \<noteq> []
      \<longrightarrow> assign_tag entities number edim model_tags =
            snd (last (matching_groups entities number edim model_tags)))"
  by (simp add: assign_tag_def assign_tag_loop_last)

theorem assign_tag_resolution_witness:
  "matching_groups example_entities 3 0 example_groups = [] \<and>
   assign_tag example_entities 3 0 example_groups = -1 \<and>
   matching_groups example_entities 1 0 example_groups = [(0, 7)] \<and>
   assign_tag example_entities 1 0 example_groups = 7 \<and>
   matching_groups example_entities 2 0 example_groups = [(0, 7), (0, 8)] \<and>
   assign_tag example_entities 2 0 example_groups = 8"
  using assign_tag_resolution [of example_entities 3 0 example_groups "(0, 0)"]
    assign_tag_resolution [of example_entities 1 0 example_groups "(0, 7)"]
    assign_tag_resolution [of example_entities 2 0 example_groups "(0, 0)"]
  by (simp add: matching_groups_def example_entities_def example_groups_def)

subsection \<open>Starting a solver session\<close>

text \<open>
  C2. \<^verbatim>\<open>start_model('2d')\<close> returns with 3 degrees of freedom per node configured,
  \<^verbatim>\<open>start_model('3d')\<close> with 6; on every other string, \<^verbatim>\<open>'tower'\<close> among them, it raises
  NameError and leaves the configuration as it was; it raises exactly when the string is
  neither \<^verbatim>\<open>'2d'\<close> nor \<^verbatim>\<open>'3d'\<close>.
\<close>

theorem start_model_degrees_of_freedom:
  "fst (start_model ''2d'' s) = None \<and> ndf (snd (start_model ''2d'' s)) = Some 3 \<and>
   fst (start_model ''3d'' s) = None \<and> ndf (snd (start_model ''3d'' s)) = Some 6 \<and>
   fst (start_model ''tower'' s) = Some (NameError not_valid_model_type) \<and>
   ndf (snd (start_model ''tower'' s)) = ndf s \<and>
   (fst (start_model t s) = None) = (t = ''2d'' \<or> t = ''3d'') \<and>
   (fst (start_model t s) = Some (NameError not_valid_model_type) \<and>
      ndf (snd (start_model t s)) = ndf s \<and> ndm (snd (start_model t s)) = ndm s)
     = (t \<noteq> ''2d'' \<and> t \<noteq> ''3d'')"
  by (simp add: start_model_def py_print_def model_basic_def wipe_def)

subsection \<open>Testing a material\<close>

text \<open>
  C6. No exception leaves \<^verbatim>\<open>material_tester\<close>, whatever the libraries do: when the body
  of the test raises (a missing material, a failing import, any other error), the
  diagnostic message is printed on the console and the function returns; when it does
  not raise, nothing is printed.
\<close>

theorem material_tester_never_raises:
  "fst (material_tester lib matTag strain title scaleStress st) = None \<and>
   (fst (material_tester_body lib matTag strain title scaleStress (fst st)) = Some er
      \<longrightarrow> snd (snd (material_tester lib matTag strain title scaleStress st)) =
            snd st @ [check_material_message]) \<and>
   (fst (material_tester_body lib matTag strain title scaleStress (fst st)) = None
      \<longrightarrow> snd (snd (material_tester lib matTag strain title scaleStress st)) = snd st)"
  by (cases "material_tester_body lib matTag strain title scaleStress (fst st)")
    (auto simp: material_tester_def split: option.splits)

lemma example_body_missing_material:
  "material_tester_body example_libraries 5 [1, 2] ''t'' 1 0 =
     (Some (LibraryError ''material not found''), 0)"
  by (simp add: material_tester_body_def example_libraries_def)

lemma example_body_defined_material:
  "material_tester_body example_libraries 1 [1, 2] ''t'' 1 7 = (None, 2)"
  by (simp add: material_tester_body_def example_libraries_def)

theorem material_tester_never_raises_witness:
  "fst (material_tester_body example_libraries 5 [1, 2] ''t'' 1 (fst (0, []))) =
     Some (LibraryError ''material not found'') \<and>
   material_tester example_libraries 5 [1, 2] ''t'' 1 (0, []) =
     (None, (0, [check_material_message])) \<and>
   fst (material_tester_body example_libraries 1 [1, 2] ''t'' 1 (fst (7, []))) = None \<and>
   material_tester example_libraries 1 [1, 2] ''t'' 1 (7, []) = (None, (2, []))"
  using material_tester_never_raises [of example_libraries 5 "[1, 2]" "''t''" 1
      "(0, [])" "LibraryError ''material not found''"]
    material_tester_never_raises [of example_libraries 1 "[1, 2]" "''t''" 1
      "(7, [])" "LibraryError ''material not found''"]
  by (simp add: material_tester_def example_body_missing_material
      example_body_defined_material)

section \<open>Properties of plotting\<close>

lemma length_np_linspace01: "length (np_linspace01 n) = n"
  by (simp add: np_linspace01_def)

lemma nth_np_linspace01:
  "i < n \<Longrightarrow> np_linspace01 n ! i = (if n = 1 then 0 else real i / real (n - 1))"
  by (auto simp: np_linspace01_def)

lemma distinct_np_linspace01: "distinct (np_linspace01 n)"
proof -
  have "inj_on (\<lambda>i. real i / real (n - 1)) (set [0..<n])" if "2 \<le> n"
    using that by (auto simp: inj_on_def)
  then show ?thesis
    by (auto simp: np_linspace01_def distinct_map)
qed

lemma set_tagged: "set (tagged ndb edb) = distinct_tags ndb edb"
  by (auto simp: tagged_def distinct_tags_def)

lemma map_fst_tag_color_map:
  "map fst (tag_color_map set_order rainbow ndb edb) = plot_tags set_order ndb edb"
  by (simp add: tag_color_map_def Let_def length_np_linspace01)

lemma map_snd_tag_color_map:
  "map snd (tag_color_map set_order rainbow ndb edb) =
     map (rgb_string \<circ> rainbow) (np_linspace01 (length (plot_tags set_order ndb edb)))"
  by (simp add: tag_color_map_def Let_def length_np_linspace01)

lemma dict_get_member:
  "distinct (map fst d) \<Longrightarrow> (k, v) \<in> set d \<Longrightarrow> dict_get d k dflt = v"
proof -
  assume "distinct (map fst d)" and "(k, v) \<in> set d"
  then have "map_of (rev d) k = Some v"
    by (intro map_of_is_SomeI) (simp_all add: rev_map [symmetric])
  then show ?thesis by (simp add: dict_get_def)
qed

lemma dict_get_absent: "k \<notin> fst ` set d \<Longrightarrow> dict_get d k dflt = dflt"
proof -
  assume "k \<notin> fst ` set d"
  then have "map_of (rev d) k = None"
    by (simp add: map_of_eq_None_iff)
  then show ?thesis by (simp add: dict_get_def)
qed

lemma element_round_lines:
  "element_round sn st cbt sl tcm en e = Inr ts \<Longrightarrow>
     map line_color (filter (\<lambda>t. trace_mode t = ''lines'') ts) =
       [Some (Color (element_color cbt tcm e))]"
  by (auto simp: element_round_def Let_def split: sum.splits if_splits)

lemma element_traces_lines:
  "element_traces sn st cbt sl tcm edb acc = Inr ts \<Longrightarrow>
     map line_color (filter (\<lambda>t. trace_mode t = ''lines'') ts) =
       map line_color (filter (\<lambda>t. trace_mode t = ''lines'') acc) @
       map (\<lambda>e. Some (Color (element_color cbt tcm e))) (map snd edb)"
proof (induction edb arbitrary: acc)
  case Nil
  then show ?case by simp
next
  case (Cons a edb)
  obtain en e where a: "a = (en, e)" by (cases a)
  from Cons.prems a obtain r where r: "element_round sn st cbt sl tcm en e = Inr r"
    and t: "element_traces sn st cbt sl tcm edb (acc @ r) = Inr ts"
    by (auto split: sum.splits)
  from Cons.IH [OF t] element_round_lines [OF r] a show ?case by simp
qed


lemma build_figure_colors:
  assumes "build_figure set_order rainbow ndb edb sn st True sl = Inr fig"
  shows "marker_color (hd (fig_data fig)) =
           Some (Colors (map (\<lambda>nd. dict_get (tag_color_map set_order rainbow ndb edb)
                                   (node_tag nd) ''red'') (map snd ndb)))"
    and "map line_color (filter (\<lambda>t. trace_mode t = ''lines'') (fig_data fig)) =
           map (\<lambda>e. Some (Color (dict_get (tag_color_map set_order rainbow ndb edb)
                                      (elem_tag e) ''black''))) (map snd edb)"
proof -
  let ?tcm = "tag_color_map set_order rainbow ndb edb"
  from assms obtain ts where ts: "element_traces sn st True sl ?tcm edb [] = Inr ts"
    and fig: "fig = \<lparr> fig_data = node_trace sn st True sl ?tcm ndb # ts,
                         fig_layout = plot_layout \<rparr>"
    by (auto simp: build_figure_def Let_def split: sum.splits)
  from fig show "marker_color (hd (fig_data fig)) =
      Some (Colors (map (\<lambda>nd. dict_get ?tcm (node_tag nd) ''red'') (map snd ndb)))"
    by (simp add: node_trace_def node_color_def)
  have "trace_mode (node_trace sn st True sl ?tcm ndb) \<noteq> ''lines''"
    by (simp add: node_trace_def)
  with fig element_traces_lines [OF ts]
  show "map line_color (filter (\<lambda>t. trace_mode t = ''lines'') (fig_data fig)) =
      map (\<lambda>e. Some (Color (dict_get ?tcm (elem_tag e) ''black''))) (map snd edb)"
    by (simp add: element_color_def)
qed

lemma plot_model_shows:
  "plot_model set_order rainbow sn st cbt sh fn sl w = (None, w') \<Longrightarrow>
     build_figure set_order rainbow (nodes_db w) (elements_db w) sn st cbt sl =
       Inr (last (displayed w'))"
  by (auto simp: plot_model_def split: sum.splits)

lemma py_int_byte: "0 \<le> v \<Longrightarrow> v \<le> 1 \<Longrightarrow> py_int (v * 255) \<in> {0..255}"
proof -
  assume a: "0 \<le> v" "v \<le> 1"
  then have "0 \<le> v * 255" "v * 255 \<le> 255" by simp_all
  then have "0 \<le> \<lfloor>v * 255\<rfloor>" "\<lfloor>v * 255\<rfloor> \<le> 255" by linarith+
  with \<open>0 \<le> v * 255\<close> show ?thesis by (simp add: py_int_def)
qed

lemma rgb_string_bytes:
  assumes "0 \<le> r" "r \<le> 1" "0 \<le> g" "g \<le> 1" "0 \<le> b" "b \<le> 1"
  shows "rgb_string (r, g, b) \<in> rgb_of_bytes ` ({0..255} \<times> {0..255} \<times> {0..255})"
proof -
  have "rgb_string (r, g, b) = rgb_of_bytes (py_int (r * 255), py_int (g * 255), py_int (b * 255))"
    by (simp add: rgb_string_def rgb_of_bytes_def)
  moreover have "(py_int (r * 255), py_int (g * 255), py_int (b * 255))
      \<in> {0..255} \<times> {0..255} \<times> {0..255}"
    using assms py_int_byte by simp
  ultimately show ?thesis by (metis imageI)
qed

lemma card_rgb_of_bytes:
  "card (rgb_of_bytes ` ({0..255} \<times> {0..255} \<times> {0..255})) \<le> 16777216"
proof -
  have "card (rgb_of_bytes ` ({0..255} \<times> {0..255} \<times> {0..255}))
      \<le> card (({0..255} \<times> {0..255} \<times> {0..255}) :: (int \<times> int \<times> int) set)"
    by (rule card_image_le) simp
  also have "\<dots> = 16777216" by (simp add: card_cartesian_product)
  finally show ?thesis .
qed

lemma crowded_not_distinct:
  assumes "finite S" "set xs \<subseteq> S" "card S < length xs"
  shows "\<not> distinct xs"
proof
  assume "distinct xs"
  then have "length xs = card (set xs)" by (simp add: distinct_card)
  also have "\<dots> \<le> card S" using assms(1,2) by (rule card_mono)
  finally show False using assms(3) by simp
qed

lemma np_linspace01_unit: "v \<in> set (np_linspace01 n) \<Longrightarrow> 0 \<le> v \<and> v \<le> 1"
  by (auto simp: np_linspace01_def split: if_splits)

lemma tag_colors_collide:
  assumes unit: "\<And>v. 0 \<le> v \<Longrightarrow> v \<le> 1 \<Longrightarrow>
      (case rainbow v of (r, g, b) \<Rightarrow> 0 \<le> r \<and> r \<le> 1 \<and> 0 \<le> g \<and> g \<le> 1 \<and> 0 \<le> b \<and> b \<le> 1)"
    and many: "16777216 < length (plot_tags set_order ndb edb)"
  shows "\<not> distinct (map snd (tag_color_map set_order rainbow ndb edb))"
proof (rule crowded_not_distinct)
  let ?S = "rgb_of_bytes ` ({0..255} \<times> {0..255} \<times> {0..255})"
  show "finite ?S" by simp
  show "set (map snd (tag_color_map set_order rainbow ndb edb)) \<subseteq> ?S"
  proof
    fix c assume "c \<in> set (map snd (tag_color_map set_order rainbow ndb edb))"
    then obtain v where v: "v \<in> set (np_linspace01 (length (plot_tags set_order ndb edb)))"
      and c: "c = rgb_string (rainbow v)"
      unfolding map_snd_tag_color_map by auto
    obtain r g b where rgb: "rainbow v = (r, g, b)" by (cases "rainbow v")
    from np_linspace01_unit [OF v] unit [of v] rgb
    have "0 \<le> r \<and> r \<le> 1 \<and> 0 \<le> g \<and> g \<le> 1 \<and> 0 \<le> b \<and> b \<le> 1" by simp
    then show "c \<in> ?S" unfolding c rgb by (intro rgb_string_bytes) simp_all
  qed
  show "card ?S < length (map snd (tag_color_map set_order rainbow ndb edb))"
    using card_rgb_of_bytes many by (simp add: map_snd_tag_color_map length_np_linspace01)
qed

lemma tagged_many_nodes_db: "tagged (many_nodes_db n) [] = map int [0..<n]"
proof -
  have "filter (\<lambda>t. t \<noteq> -1) (map int [0..<n]) = map int [0..<n]"
    by (rule filter_True) auto
  moreover have "map (node_tag \<circ> snd) (many_nodes_db n) = map int [0..<n]"
    by (simp add: many_nodes_db_def Node_init_def comp_def)
  ultimately show ?thesis by (simp add: tagged_def)
qed

lemma plot_tags_many_nodes_db: "plot_tags remdups (many_nodes_db n) [] = map int [0..<n]"
proof -
  have "distinct (map int [0..<n])" by (simp add: distinct_map)
  then show ?thesis by (simp add: plot_tags_def tagged_many_nodes_db)
qed

text \<open>
  As the claim C7 is written, every distinct tag with a colour of its own, it fails on a
  model with more distinct tags than there are colour strings of three bytes, for every
  colour map with parts in [0, 1]; here for the example colour map and 16777217 tags.
\<close>

theorem plot_model_colors_counterexample:
  "\<not> distinct (map snd (tag_color_map remdups example_rainbow (many_nodes_db 16777217) []))"
  by (rule tag_colors_collide)
    (simp_all add: example_rainbow_def plot_tags_many_nodes_db)

text \<open>
  C7, amended. Let the order in which Python lists the set of tags be any order without
  repetition. With \<^verbatim>\<open>color_by_tag=True\<close>, the keys of the tag-to-colour map are exactly the
  distinct tags of all nodes and elements other than -1; the tags take, in their order, the
  colours of the ramp of as many evenly spaced points from 0 to 1 as there are tags, so no
  two tags share a point of the ramp; and they get as many different colours as there are
  tags whenever the colour map of the plotting library renders the points of the ramp as
  different colour strings (two tags, two colours). A tag in the map is looked up to its
  colour, a tag outside the map to the default; in the figure shown the nodes carry the
  colour of their tag with default red, the elements the colour of theirs with default
  black.
\<close>

theorem plot_model_color_by_tag:
  "distinct (set_order (tagged (nodes_db w) (elements_db w))) \<and>
   set (set_order (tagged (nodes_db w) (elements_db w))) =
     set (tagged (nodes_db w) (elements_db w))
   \<longrightarrow>
   (let tcm = tag_color_map set_order rainbow (nodes_db w) (elements_db w);
        n = card (distinct_tags (nodes_db w) (elements_db w))
    in fst ` set tcm = distinct_tags (nodes_db w) (elements_db w) \<and>
       distinct (map fst tcm) \<and> length tcm = n \<and>
       map snd tcm = map (rgb_string \<circ> rainbow) (np_linspace01 n) \<and>
       distinct (np_linspace01 n) \<and>
       (i < n \<longrightarrow> np_linspace01 n ! i = (if n = 1 then 0 else real i / real (n - 1))) \<and>
       (inj_on (rgb_string \<circ> rainbow) (set (np_linspace01 n))
          \<longrightarrow> distinct (map snd tcm) \<and> card (snd ` set tcm) = n) \<and>
       ((t, c) \<in> set tcm \<longrightarrow> dict_get tcm t dflt = c) \<and>
       (u \<notin> distinct_tags (nodes_db w) (elements_db w) \<longrightarrow> dict_get tcm u dflt = dflt) \<and>
       (plot_model set_order rainbow sn st True sh fn sl w = (None, w') \<longrightarrow>
          marker_color (hd (fig_data (last (displayed w')))) =
            Some (Colors (map (\<lambda>nd. dict_get tcm (node_tag nd) ''red'')
                            (map snd (nodes_db w)))) \<and>
          map line_color (filter (\<lambda>t. trace_mode t = ''lines'')
                            (fig_data (last (displayed w')))) =
            map (\<lambda>e. Some (Color (dict_get tcm (elem_tag e) ''black'')))
              (map snd (elements_db w))))"
proof (intro impI)
  let ?ndb = "nodes_db w" and ?edb = "elements_db w"
  let ?tcm = "tag_color_map set_order rainbow ?ndb ?edb"
  let ?n = "card (distinct_tags ?ndb ?edb)"
  assume h: "distinct (set_order (tagged ?ndb ?edb)) \<and>
    set (set_order (tagged ?ndb ?edb)) = set (tagged ?ndb ?edb)"
  have keys: "map fst ?tcm = set_order (tagged ?ndb ?edb)"
    by (simp add: map_fst_tag_color_map plot_tags_def)
  from h have k1: "fst ` set ?tcm = distinct_tags ?ndb ?edb"
    using keys set_tagged [of ?ndb ?edb] by (metis set_map)
  from h keys have k2: "distinct (map fst ?tcm)" by simp
  from h have len: "length (plot_tags set_order ?ndb ?edb) = ?n"
    using distinct_card [of "set_order (tagged ?ndb ?edb)"] set_tagged [of ?ndb ?edb]
    by (simp add: plot_tags_def)
  have k3: "length ?tcm = ?n"
    using len keys by (metis length_map plot_tags_def)
  have k4: "map snd ?tcm = map (rgb_string \<circ> rainbow) (np_linspace01 ?n)"
    using map_snd_tag_color_map [of set_order rainbow ?ndb ?edb] len by simp
  have k5: "distinct (map snd ?tcm) \<and> card (snd ` set ?tcm) = ?n"
    if inj: "inj_on (rgb_string \<circ> rainbow) (set (np_linspace01 ?n))"
  proof -
    from inj have d: "distinct (map snd ?tcm)"
      unfolding k4 by (simp add: distinct_map distinct_np_linspace01)
    have "card (snd ` set ?tcm) = card (set (map snd ?tcm))" by simp
    also from d have "\<dots> = length (map snd ?tcm)" by (rule distinct_card)
    also have "\<dots> = ?n" using k3 by simp
    finally show ?thesis using d by simp
  qed
  have k6: "dict_get ?tcm t dflt = c" if "(t, c) \<in> set ?tcm"
    using k2 that by (rule dict_get_member)
  have k7: "dict_get ?tcm u dflt = dflt" if "u \<notin> distinct_tags ?ndb ?edb"
    using that k1 by (simp add: dict_get_absent)
  have k8: "marker_color (hd (fig_data (last (displayed w')))) =
            Some (Colors (map (\<lambda>nd. dict_get ?tcm (node_tag nd) ''red'') (map snd ?ndb))) \<and>
          map line_color (filter (\<lambda>t. trace_mode t = ''lines'')
                            (fig_data (last (displayed w')))) =
            map (\<lambda>e. Some (Color (dict_get ?tcm (elem_tag e) ''black''))) (map snd ?edb)"
    if "plot_model set_order rainbow sn st True sh fn sl w = (None, w')"
    using build_figure_colors [OF plot_model_shows [OF that]] by simp
  show "let tcm = ?tcm; n = ?n
    in fst ` set tcm = distinct_tags (nodes_db w) (elements_db w) \<and>
       distinct (map fst tcm) \<and> length tcm = n \<and>
       map snd tcm = map (rgb_string \<circ> rainbow) (np_linspace01 n) \<and>
       distinct (np_linspace01 n) \<and>
       (i < n \<longrightarrow> np_linspace01 n ! i = (if n = 1 then 0 else real i / real (n - 1))) \<and>
       (inj_on (rgb_string \<circ> rainbow) (set (np_linspace01 n))
          \<longrightarrow> distinct (map snd tcm) \<and> card (snd ` set tcm) = n) \<and>
       ((t, c) \<in> set tcm \<longrightarrow> dict_get tcm t dflt = c) \<and>
       (u \<notin> distinct_tags (nodes_db w) (elements_db w) \<longrightarrow> dict_get tcm u dflt = dflt) \<and>
       (plot_model set_order rainbow sn st True sh fn sl w = (None, w') \<longrightarrow>
          marker_color (hd (fig_data (last (displayed w')))) =
            Some (Colors (map (\<lambda>nd. dict_get tcm (node_tag nd) ''red'')
                            (map snd (nodes_db w)))) \<and>
          map line_color (filter (\<lambda>t. trace_mode t = ''lines'')
                            (fig_data (last (displayed w')))) =
            map (\<lambda>e. Some (Color (dict_get tcm (elem_tag e) ''black'')))
              (map snd (elements_db w)))"
    unfolding Let_def
    using k1 k2 k3 k4 k5 k6 k7 k8 distinct_np_linspace01 [of ?n] nth_np_linspace01 [of i ?n]
    by blast
qed


lemma py_str_int_255: "py_str_int 255 = ''255''"
  by code_simp

lemma py_str_int_0: "py_str_int 0 = ''0''"
  by code_simp

lemma np_linspace01_two: "np_linspace01 2 = [0, 1]" "np_linspace01 (Suc (Suc 0)) = [0, 1]"
  by (simp_all add: np_linspace01_def upt_rec)

lemma example_tagged: "tagged example_nodes_db example_elements_db = [7, 8, 7]"
  by (simp add: tagged_def example_nodes_db_def example_elements_db_def Node_init_def)

lemma example_distinct_tags: "distinct_tags example_nodes_db example_elements_db = {7, 8}"
  using set_tagged [of example_nodes_db example_elements_db] by (auto simp: example_tagged)

lemma example_rgb:
  "rgb_string (example_rainbow 0) = ''rgb(0,0,255)''"
  "rgb_string (example_rainbow 1) = ''rgb(255,0,0)''"
  by (simp_all add: rgb_string_def example_rainbow_def py_int_def py_str_int_255 py_str_int_0)

lemma example_tag_color_map:
  "tag_color_map remdups example_rainbow example_nodes_db example_elements_db =
     [(8, ''rgb(0,0,255)''), (7, ''rgb(255,0,0)'')]"
proof -
  have "plot_tags remdups example_nodes_db example_elements_db = [8, 7]"
    by (simp add: plot_tags_def example_tagged)
  then show ?thesis
    using np_linspace01_two by (simp add: tag_color_map_def example_rgb)
qed

lemma example_plot_succeeds:
  "fst (plot_model remdups example_rainbow True True True False ''plot.html'' False
          example_world) = None"
  by (simp add: plot_model_def build_figure_def example_world_def example_elements_db_def
      element_round_def py_mean_def Node_init_def Let_def)

theorem plot_model_color_by_tag_witness:
  "(distinct (remdups (tagged (nodes_db example_world) (elements_db example_world))) \<and>
    set (remdups (tagged (nodes_db example_world) (elements_db example_world))) =
      set (tagged (nodes_db example_world) (elements_db example_world))) \<and>
   distinct_tags (nodes_db example_world) (elements_db example_world) = {7, 8} \<and>
   tag_color_map remdups example_rainbow (nodes_db example_world) (elements_db example_world) =
     [(8, ''rgb(0,0,255)''), (7, ''rgb(255,0,0)'')] \<and>
   inj_on (rgb_string \<circ> example_rainbow) (set (np_linspace01 2)) \<and>
   fst (plot_model remdups example_rainbow True True True False ''plot.html'' False
          example_world) = None \<and>
   marker_color (hd (fig_data (last (displayed (snd
       (plot_model remdups example_rainbow True True True False ''plot.html'' False
          example_world)))))) =
     Some (Colors [''rgb(255,0,0)'', ''rgb(0,0,255)'', ''red'']) \<and>
   map line_color (filter (\<lambda>t. trace_mode t = ''lines'') (fig_data (last (displayed (snd
       (plot_model remdups example_rainbow True True True False ''plot.html'' False
          example_world)))))) =
     [Some (Color ''rgb(255,0,0)'')]"
proof -
  let ?r = "plot_model remdups example_rainbow True True True False ''plot.html'' False
    example_world"
  have db: "nodes_db example_world = example_nodes_db"
    "elements_db example_world = example_elements_db"
    by (simp_all add: example_world_def)
  have r: "?r = (None, snd ?r)"
    using example_plot_succeeds by (simp add: prod_eq_iff)
  have c: "card {7, 8 :: int} = 2" by simp
  have inj: "inj_on (rgb_string \<circ> example_rainbow) (set (np_linspace01 2))"
    by (simp add: np_linspace01_two example_rgb)
  have get: "dict_get [(8, ''rgb(0,0,255)''), (7, ''rgb(255,0,0)'')] k d =
      (if k = 7 then ''rgb(255,0,0)'' else if k = 8 then ''rgb(0,0,255)'' else d)" for k :: int and d
    by (simp add: dict_get_def)
  have tags: "map (node_tag \<circ> snd) example_nodes_db = [7, 8, -1]"
    "map (elem_tag \<circ> snd) example_elements_db = [7]"
    by (simp_all add: example_nodes_db_def example_elements_db_def Node_init_def)
  have hyp: "distinct (remdups (tagged (nodes_db example_world) (elements_db example_world))) \<and>
    set (remdups (tagged (nodes_db example_world) (elements_db example_world))) =
      set (tagged (nodes_db example_world) (elements_db example_world))"
    by simp
  note t = plot_model_color_by_tag [of remdups example_world example_rainbow 1 7
      "''rgb(255,0,0)''" "''red''" "-1" True True False "''plot.html''" False "snd ?r",
      unfolded Let_def, THEN mp, OF hyp]
  note fig = t [THEN conjunct2, THEN conjunct2, THEN conjunct2, THEN conjunct2,
      THEN conjunct2, THEN conjunct2, THEN conjunct2, THEN conjunct2, THEN conjunct2,
      THEN mp, OF r]
  from fig [unfolded db example_tag_color_map]
  have "marker_color (hd (fig_data (last (displayed (snd ?r))))) =
      Some (Colors [''rgb(255,0,0)'', ''rgb(0,0,255)'', ''red''])"
    and "map line_color (filter (\<lambda>t. trace_mode t = ''lines'')
        (fig_data (last (displayed (snd ?r))))) = [Some (Color ''rgb(255,0,0)'')]"
    by (simp_all add: get example_nodes_db_def example_elements_db_def Node_init_def)
  with hyp inj example_plot_succeeds show ?thesis
    by (simp add: db example_distinct_tags example_tag_color_map)
qed

text \<open>
  C8. \<^verbatim>\<open>plot_model\<close> reads the two collections and changes neither them nor a record in
  them, whatever its flags and whether it returns or raises: of the files only the one
  named by \<^verbatim>\<open>filename\<close> can change, and only when \<^verbatim>\<open>save_html\<close> is set and the call
  returns, to the figure shown; a call that raises leaves the whole state as it was.
\<close>

theorem plot_model_read_only:
  "nodes_db (snd (plot_model set_order rainbow sn st cbt sh fn sl w)) = nodes_db w \<and>
   elements_db (snd (plot_model set_order rainbow sn st cbt sh fn sl w)) = elements_db w \<and>
   (name \<noteq> fn \<longrightarrow>
      files (snd (plot_model set_order rainbow sn st cbt sh fn sl w)) name = files w name) \<and>
   (\<not> sh \<longrightarrow> files (snd (plot_model set_order rainbow sn st cbt sh fn sl w)) = files w) \<and>
   (sh \<and> fst (plot_model set_order rainbow sn st cbt sh fn sl w) = None \<longrightarrow>
      files (snd (plot_model set_order rainbow sn st cbt sh fn sl w)) =
        (files w)(fn \<mapsto> last (displayed (snd (plot_model set_order rainbow sn st cbt sh fn sl w))))) \<and>
   (fst (plot_model set_order rainbow sn st cbt sh fn sl w) \<noteq> None \<longrightarrow>
      snd (plot_model set_order rainbow sn st cbt sh fn sl w) = w)"
  by (cases "build_figure set_order rainbow (nodes_db w) (elements_db w) sn st cbt sl")
    (simp_all add: plot_model_def)

lemma example_plot_saved:
  "fst (plot_model remdups example_rainbow False False False True ''plot.html'' False
          example_world) = None"
  by (simp add: plot_model_def build_figure_def example_world_def example_elements_db_def
      element_round_def py_mean_def Node_init_def Let_def)

lemma example_plot_flat_raises:
  "fst (plot_model remdups example_rainbow False False False True ''plot.html'' False
          example_flat_world) = Some TypeError"
  by (simp add: plot_model_def build_figure_def example_flat_world_def element_round_def
      py_mean_def Node_init_def Let_def)

theorem plot_model_read_only_witness:
  "''other.html'' \<noteq> ''plot.html'' \<and>
   fst (plot_model remdups example_rainbow False False False True ''plot.html'' False
          example_world) = None \<and>
   nodes_db (snd (plot_model remdups example_rainbow False False False True ''plot.html'' False
          example_world)) = example_nodes_db \<and>
   elements_db (snd (plot_model remdups example_rainbow False False False True ''plot.html''
          False example_world)) = example_elements_db \<and>
   files (snd (plot_model remdups example_rainbow False False False True ''plot.html'' False
          example_world)) ''other.html'' = None \<and>
   files (snd (plot_model remdups example_rainbow False False False True ''plot.html'' False
          example_world)) ''plot.html'' \<noteq> None \<and>
   files (snd (plot_model remdups example_rainbow True True True False ''plot.html'' False
          example_world)) = Map.empty \<and>
   fst (plot_model remdups example_rainbow False False False True ''plot.html'' False
          example_flat_world) \<noteq> None \<and>
   snd (plot_model remdups example_rainbow False False False True ''plot.html'' False
          example_flat_world) = example_flat_world"
  using plot_model_read_only [of remdups example_rainbow False False False True "''plot.html''"
      False example_world "''other.html''"]
    plot_model_read_only [of remdups example_rainbow True True True False "''plot.html''"
      False example_world "''other.html''"]
    plot_model_read_only [of remdups example_rainbow False False False True "''plot.html''"
      False example_flat_world "''other.html''"]
    example_plot_saved example_plot_flat_raises
  by (simp add: example_world_def)

end
